theory Spec2Isabelle
  imports Complex_Main
begin

section \<open>Numbers, dates and strings of the program\<close>

text \<open>
  The program is JavaScript. A \<open>Date\<close> is modelled by its time value
  (\<open>getTime()\<close>, whole milliseconds since the epoch) as an \<open>int\<close>; only valid
  dates are modelled. Amounts, balances and interest are JavaScript numbers; they are
  modelled as \<open>real\<close>. The balances are credited and debited with exact arithmetic.
  The duration of a plan, the end date and the progressive interest are modelled with
  the arithmetic of IEEE doubles: the result of each product, quotient, sum and
  difference is rounded to the nearest double by \<open>to_double\<close>. The remaining time is
  computed on whole milliseconds, where doubles are exact below \<open>2^53\<close>. Where the
  source divides by a value that can be zero, the result is a \<open>jsnum\<close>, which has the
  non-finite values of a JavaScript number.
\<close>

type_synonym msec = int

datatype jsnum = Fin real | PosInf | NegInf | NaN

text \<open>\<open>a / b\<close> on two finite numbers (the sign of a zero divisor is not modelled:
  a zero is taken as \<open>+0\<close>).\<close>

definition js_div :: "real \<Rightarrow> real \<Rightarrow> jsnum" where
  "js_div a b =
     (if b = 0 then (if a = 0 then NaN else if 0 < a then PosInf else NegInf)
      else Fin (a / b))"

text \<open>\<open>x * c\<close> for a finite non-zero constant \<open>c\<close>.\<close>

definition js_times :: "jsnum \<Rightarrow> real \<Rightarrow> jsnum" where
  "js_times x c =
     (case x of
        Fin a \<Rightarrow> Fin (a * c)
      | PosInf \<Rightarrow> (if 0 < c then PosInf else NegInf)
      | NegInf \<Rightarrow> (if 0 < c then NegInf else PosInf)
      | NaN \<Rightarrow> NaN)"

text \<open>\<open>Math.min(x, c)\<close> for a finite \<open>c\<close>: \<open>NaN\<close> if an argument is \<open>NaN\<close>.\<close>

definition js_min :: "jsnum \<Rightarrow> real \<Rightarrow> jsnum" where
  "js_min x c =
     (case x of
        Fin a \<Rightarrow> Fin (min a c)
      | PosInf \<Rightarrow> Fin c
      | NegInf \<Rightarrow> NegInf
      | NaN \<Rightarrow> NaN)"

text \<open>
  Rounding of a real to the nearest double (binary64, 53 significant bits), a tie going
  to the even significand. The exponent is not bounded: overflow to \<open>Infinity\<close> (above
  about \<open>1.8e308\<close>) and the subnormal numbers (below about \<open>2.2e-308\<close>) are not
  modelled. A decimal literal of the source is the double nearest to it, so \<open>30.44\<close>
  is \<open>to_double (3044 / 100)\<close>.
\<close>

definition round_even :: "real \<Rightarrow> int" where
  "round_even x =
     (let f = \<lfloor>x\<rfloor>; d = x - real_of_int f
      in if d < 1 / 2 then f else if 1 / 2 < d then f + 1 else if even f then f else f + 1)"

definition to_double :: "real \<Rightarrow> real" where
  "to_double x =
     (if x = 0 then 0
      else let e = \<lfloor>log 2 \<bar>x\<bar>\<rfloor>; q = 2 powr (real_of_int e - 52)
           in sgn x * real_of_int (round_even (\<bar>x\<bar> / q)) * q)"

text \<open>\<open>a * b\<close> on two doubles, and \<open>a * b1 * ... * bn\<close>, which multiplies from the
  left.\<close>

definition js_mul :: "real \<Rightarrow> real \<Rightarrow> real" where
  "js_mul a b = to_double (a * b)"

definition js_product :: "real \<Rightarrow> real list \<Rightarrow> real" where
  "js_product a bs = foldl js_mul a bs"

text \<open>\<open>Math.round\<close>: the nearest integer, a tie going up. It is exact on a double.\<close>

definition Math_round :: "real \<Rightarrow> int" where
  "Math_round x = \<lfloor>x + 1 / 2\<rfloor>"


text \<open>The decimal rendering of a non-negative integer in a template literal.\<close>

fun digit_char :: "nat \<Rightarrow> char" where
  "digit_char n = char_of (48 + n)"

fun show_nat :: "nat \<Rightarrow> string" where
  "show_nat n = (if n < 10 then [digit_char n] else show_nat (n div 10) @ [digit_char (n mod 10)])"

declare show_nat.simps [simp del]

definition show_int :: "int \<Rightarrow> string" where
  "show_int i = (if i < 0 then CHR ''-'' # show_nat (nat (- i)) else show_nat (nat i))"

section \<open>utils/dateUtils.js\<close>

subsection \<open>parseDurationToMilliseconds\<close>

text \<open>
  Strings are lists of 8-bit characters. \<open>toLowerCase\<close> is modelled on the ASCII
  letters (no other character of this range becomes an ASCII letter), and the white
  space of \<open>trim\<close> and of the pattern's \<open>\s\<close> is the white space of this range.
\<close>

definition to_lower :: "char \<Rightarrow> char" where
  "to_lower c =
     (if (65::nat) \<le> of_char c \<and> of_char c \<le> (90::nat) then char_of (of_char c + (32::nat)) else c)"

definition is_space :: "char \<Rightarrow> bool" where
  "is_space c \<longleftrightarrow> of_char c \<in> {9, 10, 11, 12, 13, 32, 160 :: nat}"

definition is_digit :: "char \<Rightarrow> bool" where
  "is_digit c \<longleftrightarrow> (48::nat) \<le> of_char c \<and> of_char c \<le> (57::nat)"

definition trim :: "string \<Rightarrow> string" where
  "trim s = rev (dropWhile is_space (rev (dropWhile is_space s)))"

text \<open>\<open>parseInt\<close> on a string of decimal digits (most significant digit first): the
  double nearest to the number written.\<close>

definition decimal_value :: "string \<Rightarrow> int" where
  "decimal_value ds = foldl (\<lambda>acc c. 10 * acc + (int (of_char c) - 48)) 0 ds"

definition parseInt :: "string \<Rightarrow> real" where
  "parseInt ds = to_double (real_of_int (decimal_value ds))"

text \<open>
  The two errors that \<open>parseDurationToMilliseconds\<close> throws, and the Invalid Date that
  \<open>new Date\<close> gives for a time value beyond 8.64e15 milliseconds.
\<close>

datatype date_error =
    InvalidDurationFormat string
  | UnsupportedDurationUnit string
  | InvalidDate

text \<open>
  The pattern is \<open>^(\d+)\s+(minute|minutes|...|years)$\<close>: one or more digits, one or
  more white-space characters, then exactly one of the unit words. The result is the
  product of doubles \<open>amount * 30.44 * 24 * 60 * 60 * 1000\<close> (for a month), which
  need not be a whole number: one month is \<open>2630016000.0000005\<close>.
\<close>

definition unit_words :: "string list" where
  "unit_words = [''minute'', ''minutes'', ''hour'', ''hours'', ''day'', ''days'',
     ''week'', ''weeks'', ''month'', ''months'', ''year'', ''years'']"

definition parseDurationToMilliseconds :: "string \<Rightarrow> date_error + real" where
  "parseDurationToMilliseconds durationString =
     (let duration = trim (map to_lower durationString);
          digits = takeWhile is_digit duration;
          rest = dropWhile is_digit duration;
          gap = takeWhile is_space rest;
          unit = dropWhile is_space rest
      in if digits = [] \<or> gap = [] \<or> unit \<notin> set unit_words
         then Inl (InvalidDurationFormat durationString)
         else let amount = parseInt digits
              in if unit = ''minute'' \<or> unit = ''minutes''
                 then Inr (js_product amount [60, 1000])
                 else if unit = ''hour'' \<or> unit = ''hours''
                 then Inr (js_product amount [60, 60, 1000])
                 else if unit = ''day'' \<or> unit = ''days''
                 then Inr (js_product amount [24, 60, 60, 1000])
                 else if unit = ''week'' \<or> unit = ''weeks''
                 then Inr (js_product amount [7, 24, 60, 60, 1000])
                 else if unit = ''month'' \<or> unit = ''months''
                 then Inr (js_product amount [to_double (3044 / 100), 24, 60, 60, 1000])
                 else if unit = ''year'' \<or> unit = ''years''
                 then Inr (js_product amount [to_double (36525 / 100), 24, 60, 60, 1000])
                 else Inl (UnsupportedDurationUnit unit))"

text \<open>
  \<open>new Date(t)\<close> for a finite number \<open>t\<close>: the time value is \<open>t\<close> without its
  fraction, and the date is invalid when \<open>t\<close> is beyond 8.64e15 in magnitude.
\<close>

definition new_Date :: "real \<Rightarrow> date_error + msec" where
  "new_Date t =
     (if \<bar>t\<bar> \<le> 8640000000000000 then Inr (if 0 \<le> t then \<lfloor>t\<rfloor> else \<lceil>t\<rceil>)
      else Inl InvalidDate)"

definition calculateEndDate :: "msec \<Rightarrow> string \<Rightarrow> date_error + msec" where
  "calculateEndDate startDate durationString =
     (case parseDurationToMilliseconds durationString of
        Inl e \<Rightarrow> Inl e
      | Inr durationMs \<Rightarrow> new_Date (to_double (real_of_int startDate + durationMs)))"

subsection \<open>calculateProgressiveInterest, isInvestmentDue, formatTimeRemaining\<close>

definition calculateProgressiveInterest :: "real \<Rightarrow> msec \<Rightarrow> msec \<Rightarrow> msec \<Rightarrow> real" where
  "calculateProgressiveInterest totalInterest startDate endDate checkDate =
     (let totalDuration = to_double (real_of_int endDate - real_of_int startDate);
          elapsedDuration =
            min (to_double (real_of_int checkDate - real_of_int startDate)) totalDuration
      in if elapsedDuration \<le> 0 then 0
         else if elapsedDuration \<ge> totalDuration then totalInterest
         else let progress = to_double (elapsedDuration / totalDuration)
              in to_double
                   (real_of_int (Math_round (to_double (to_double (totalInterest * progress) * 100)))
                    / 100))"

definition isInvestmentDue :: "msec \<Rightarrow> msec \<Rightarrow> bool" where
  "isInvestmentDue endDate currentDate \<longleftrightarrow> currentDate \<ge> endDate"

text \<open>\<open>${n} word${n > 1 ? 's' : ''}\<close>\<close>

definition counted :: "int \<Rightarrow> string \<Rightarrow> string" where
  "counted n word = show_int n @ '' '' @ word @ (if n > 1 then ''s'' else '''')"

definition formatTimeRemaining :: "msec \<Rightarrow> msec \<Rightarrow> string" where
  "formatTimeRemaining endDate currentDate =
     (let timeRemaining = endDate - currentDate
      in if timeRemaining \<le> 0 then ''Investment completed''
         else let days = timeRemaining div (24 * 60 * 60 * 1000);
                  hours = (timeRemaining mod (24 * 60 * 60 * 1000)) div (60 * 60 * 1000);
                  minutes = (timeRemaining mod (60 * 60 * 1000)) div (60 * 1000)
              in if days > 0 then counted days ''day'' @ '', '' @ counted hours ''hour''
                 else if hours > 0 then counted hours ''hour'' @ '', '' @ counted minutes ''minute''
                 else counted minutes ''minute'')"

section \<open>The stored documents\<close>

text \<open>
  The schemas (models/plan.js, models/user.js, models/transaction.js) are not part of the
  sources; the records below have the fields that the routes and the scheduler read and
  write. Field names follow the source; \<open>planData.plan\<close>, \<open>planData.duration\<close>
  and \<open>planData.interest\<close> carry the prefix \<open>pd_\<close>, the transaction's \<open>type\<close>
  and \<open>user\<close> are \<open>ttype\<close> and \<open>tuser\<close>, and the plan's \<open>name\<close> is
  \<open>plan_name\<close>.
\<close>

record plan =
  plan_name :: string
  description :: string
  roi :: real
  minAmount :: real
  duration :: string
  features :: "string list"
  isActive :: bool

record user =
  email :: string
  username :: string
  fullName :: string
  deposit :: real
  interest :: real

record planData =
  pd_plan :: string
  pd_duration :: string
  pd_interest :: real
  startDate :: msec
  endDate :: msec
  currentInterest :: real

record user_ref =
  ref_id :: nat
  ref_email :: string
  ref_name :: string

record transaction =
  ttype :: string
  tuser :: user_ref
  status :: string
  amount :: real
  planData :: planData
  date :: msec

text \<open>The mails of utils/mailer.js, kept in the order in which they are sent.\<close>

datatype mail =
    InvestmentApproved string string real msec string
  | InvestmentRejected string string real msec string
  | InvestmentCompleted string string real msec string
  | AlertAdmin string real msec string

text \<open>
  The state of the server: the three collections, the mails sent so far and the
  scheduler's module variable \<open>isProcessing\<close>. A plan and a transaction are never
  deleted, so the \<open>_id\<close> of a document is its position in the collection; users are
  created elsewhere and are a map from their id.
\<close>

record state =
  plans :: "plan list"
  users :: "nat \<rightharpoonup> user"
  transactions :: "transaction list"
  outbox :: "mail list"
  isProcessing :: bool

definition findById :: "'a list \<Rightarrow> nat \<Rightarrow> 'a option" where
  "findById docs i = (if i < length docs then Some (docs ! i) else None)"

text \<open>
  A response is a status code with either a \<open>{message}\<close> body or a payload. A message
  that interpolates a number keeps the number beside its text.
\<close>

datatype msg = Msg string | MsgNum string real

datatype 'a reply = Failure nat msg | Success nat 'a

fun status_code :: "'a reply \<Rightarrow> nat" where
  "status_code (Failure c m) = c"
| "status_code (Success c x) = c"

section \<open>routes/plans.js\<close>

subsection \<open>POST /plans\<close>

text \<open>
  The fields of the request body; \<open>None\<close> is a field that is absent. \<open>NotAnArray\<close>
  stands for a \<open>features\<close> value that is truthy and not an array.
\<close>

datatype features_value = FeatureArray "string list" | NotAnArray

record plan_body =
  b_name :: "string option"
  b_description :: "string option"
  b_roi :: "real option"
  b_minAmount :: "real option"
  b_duration :: "string option"
  b_features :: "features_value option"

text \<open>JavaScript truthiness: the empty string and the number 0 are falsy, as is an
  absent field; every array is truthy.\<close>

definition truthy_str :: "string option \<Rightarrow> bool" where
  "truthy_str s \<longleftrightarrow> (case s of None \<Rightarrow> False | Some v \<Rightarrow> v \<noteq> [])"

definition truthy_num :: "real option \<Rightarrow> bool" where
  "truthy_num n \<longleftrightarrow> (case n of None \<Rightarrow> False | Some v \<Rightarrow> v \<noteq> 0)"

definition truthy_features :: "features_value option \<Rightarrow> bool" where
  "truthy_features f \<longleftrightarrow> f \<noteq> None"

text \<open>A name of ASCII letters, digits and spaces.\<close>

definition plain_char :: "char \<Rightarrow> bool" where
  "plain_char c \<longleftrightarrow>
     is_digit c \<or> of_char c = (32::nat)
     \<or> (65::nat) \<le> of_char c \<and> of_char c \<le> (90::nat)
     \<or> (97::nat) \<le> of_char c \<and> of_char c \<le> (122::nat)"

definition plain_name :: "string \<Rightarrow> bool" where
  "plain_name name \<longleftrightarrow> list_all plain_char name"

text \<open>
  \<open>Plan.findOne({name: {$regex: new RegExp(`^${name}$`, "i")}})\<close>: a plan whose name
  equals the given one up to the case of ASCII letters. This is what the pattern matches
  when the given name is a \<open>plain_name\<close>, made of ASCII letters, digits and spaces. A
  name with other characters is used by the source as a pattern (\<open>C++\<close> is not a
  pattern and throws); for such names the lookup is not modelled.
\<close>

definition name_exists :: "plan list \<Rightarrow> string \<Rightarrow> bool" where
  "name_exists ps name \<longleftrightarrow> (\<exists>p \<in> set ps. map to_lower (plan_name p) = map to_lower name)"

text \<open>
  The handler. The new document's \<open>isActive\<close> is the schema's default, which is the
  parameter \<open>active_default\<close>.
\<close>

definition post_plan :: "bool \<Rightarrow> plan_body \<Rightarrow> state \<Rightarrow> plan reply \<times> state" where
  "post_plan active_default body st =
     (if \<not> truthy_str (b_name body) \<or> \<not> truthy_str (b_description body)
         \<or> \<not> truthy_num (b_roi body) \<or> \<not> truthy_num (b_minAmount body)
         \<or> \<not> truthy_str (b_duration body) \<or> \<not> truthy_features (b_features body)
      then (Failure 400 (Msg ''All fields are required''), st)
      else if the (b_roi body) < 0 \<or> the (b_roi body) > 1000
      then (Failure 400 (Msg ''ROI must be between 0 and 1000''), st)
      else if the (b_minAmount body) < 0
      then (Failure 400 (Msg ''Minimum amount must be positive''), st)
      else case the (b_features body) of
             NotAnArray \<Rightarrow> (Failure 400 (Msg ''At least one feature is required''), st)
           | FeatureArray fs \<Rightarrow>
               if length fs = 0
               then (Failure 400 (Msg ''At least one feature is required''), st)
               else if name_exists (plans st) (the (b_name body))
               then (Failure 400 (Msg ''Plan name already exists''), st)
               else let plan = \<lparr> plan_name = the (b_name body),
                                  description = the (b_description body),
                                  roi = the (b_roi body),
                                  minAmount = the (b_minAmount body),
                                  duration = the (b_duration body),
                                  features = filter (\<lambda>f. trim f \<noteq> []) fs,
                                  isActive = active_default \<rparr>
                    in (Success 201 plan, st\<lparr>plans := plans st @ [plan]\<rparr>))"

subsection \<open>POST /plans/invest\<close>

record invest_body =
  planId :: nat
  req_amount :: real
  userId :: nat
  req_interest :: "real option"

record invest_summary =
  inv_id :: nat
  inv_status :: string
  inv_startDate :: msec
  inv_endDate :: msec
  inv_timeRemaining :: real

record invest_ok =
  inv_message :: string
  remainingBalance :: real
  investment :: invest_summary

fun date_error_message :: "date_error \<Rightarrow> msg" where
  "date_error_message (InvalidDurationFormat s) = Msg (''Invalid duration format: '' @ s)"
| "date_error_message (UnsupportedDurationUnit u) = Msg (''Unsupported duration unit: '' @ u)"
| "date_error_message InvalidDate = Msg ''Invalid Date''"

text \<open>
  \<open>now\<close> is the value of \<open>new Date()\<close>; the transaction's \<open>date\<close> (a default of
  its schema) is taken to be the same instant. The user is saved right after the debit,
  before the end date is computed, so an error thrown by \<open>calculateEndDate\<close> is answered
  with 500 in the state that has the debit. For an end date that is an Invalid Date the
  source goes on to save the record, and what that save does depends on the Transaction
  schema, which is not among the sources: the model takes the save to fail, so that this
  request is answered 500 as well.
\<close>

definition post_invest :: "msec \<Rightarrow> invest_body \<Rightarrow> state \<Rightarrow> invest_ok reply \<times> state" where
  "post_invest now body st =
     (case findById (plans st) (planId body) of
        None \<Rightarrow> (Failure 404 (Msg ''Plan not found''), st)
      | Some plan \<Rightarrow>
          if \<not> isActive plan then (Failure 404 (Msg ''Plan not found''), st)
          else if req_amount body < minAmount plan
          then (Failure 400 (MsgNum ''Minimum amount is $'' (minAmount plan)), st)
          else
           (case users st (userId body) of
              None \<Rightarrow> (Failure 404 (Msg ''User not found''), st)
            | Some user \<Rightarrow>
                if deposit user < req_amount body
                then (Failure 400 (MsgNum ''Insufficient balance. Available: $'' (deposit user)), st)
                else
                  let user1 = user\<lparr>deposit := deposit user - req_amount body\<rparr>;
                      st1 = st\<lparr>users := (users st)(userId body := Some user1)\<rparr>;
                      startDate' = now
                  in
                   (case calculateEndDate startDate' (duration plan) of
                      Inl e \<Rightarrow> (Failure 500 (date_error_message e), st1)
                    | Inr endDate' \<Rightarrow>
                        let totalInterest =
                              (if truthy_num (req_interest body) then the (req_interest body)
                               else (req_amount body * roi plan) / 100);
                            transaction =
                              \<lparr> ttype = ''investment'',
                                tuser = \<lparr> ref_id = userId body, ref_email = email user1,
                                          ref_name = username user1 \<rparr>,
                                status = ''active'',
                                amount = req_amount body,
                                planData = \<lparr> pd_plan = plan_name plan,
                                             pd_duration = duration plan,
                                             pd_interest = totalInterest,
                                             startDate = startDate',
                                             endDate = endDate',
                                             currentInterest = 0 \<rparr>,
                                date = now \<rparr>;
                            st2 = st1\<lparr>transactions := transactions st1 @ [transaction]\<rparr>;
                            st3 = st2\<lparr>outbox := outbox st2 @
                                    [InvestmentApproved (email user1) (fullName user1)
                                       (req_amount body) (date transaction) (plan_name plan),
                                     AlertAdmin (email user1) (req_amount body)
                                       (date transaction) ''investment'']\<rparr>
                        in (Success 201
                              \<lparr> inv_message = ''Investment activated successfully'',
                                remainingBalance = deposit user1,
                                investment = \<lparr> inv_id = length (transactions st1),
                                               inv_status = ''active'',
                                               inv_startDate = startDate',
                                               inv_endDate = endDate',
                                               inv_timeRemaining =
                                                 to_double (real_of_int endDate' - real_of_int startDate') \<rparr> \<rparr>,
                            st3))))"

subsection \<open>PUT /plans/investment/:id\<close>

text \<open>
  The handler works on the two loaded documents \<open>user\<close> and \<open>transaction\<close> and on
  the mails; \<open>user.save()\<close> and \<open>transaction.save()\<close> write them back. The three
  \<open>if\<close> blocks run in the source's order. The rejection mail is sent after
  \<open>transaction.amount = 0\<close> and reads the amount from the document.
\<close>

record put_ok =
  put_message :: string
  put_transaction :: transaction

definition on_rejected :: "nat \<Rightarrow> user \<times> transaction \<times> state \<Rightarrow> user \<times> transaction \<times> state" where
  "on_rejected uid x =
     (case x of (user, transaction, st) \<Rightarrow>
        let user1 = user\<lparr>deposit := deposit user + amount transaction\<rparr>;
            transaction1 = transaction\<lparr>amount := 0\<rparr>;
            st1 = st\<lparr>users := (users st)(uid := Some user1)\<rparr>;
            st2 = st1\<lparr>outbox := outbox st1 @
                    [InvestmentRejected (email user1) (fullName user1) (amount transaction1)
                       (date transaction1) (pd_plan (planData transaction1))]\<rparr>
        in (user1, transaction1, st2))"

definition on_approved :: "user \<times> transaction \<times> state \<Rightarrow> user \<times> transaction \<times> state" where
  "on_approved x =
     (case x of (user, transaction, st) \<Rightarrow>
        (user, transaction,
         st\<lparr>outbox := outbox st @
               [InvestmentApproved (email user) (fullName user) (amount transaction)
                  (date transaction) (pd_plan (planData transaction))]\<rparr>))"

definition on_completed :: "nat \<Rightarrow> user \<times> transaction \<times> state \<Rightarrow> user \<times> transaction \<times> state" where
  "on_completed uid x =
     (case x of (user, transaction, st) \<Rightarrow>
        let user1 = user\<lparr>deposit := deposit user + amount transaction\<rparr>;
            user2 = user1\<lparr>interest := interest user1 + pd_interest (planData transaction)\<rparr>;
            st1 = st\<lparr>users := (users st)(uid := Some user2)\<rparr>;
            st2 = st1\<lparr>outbox := outbox st1 @
                    [InvestmentCompleted (email user2) (fullName user2) (amount transaction)
                       (date transaction) (pd_plan (planData transaction))]\<rparr>
        in (user2, transaction, st2))"

definition put_investment :: "nat \<Rightarrow> string \<Rightarrow> state \<Rightarrow> put_ok reply \<times> state" where
  "put_investment tid new_status st =
     (case findById (transactions st) tid of
        None \<Rightarrow> (Failure 404 (Msg ''Investment not found''), st)
      | Some transaction \<Rightarrow>
          if ttype transaction \<noteq> ''investment''
          then (Failure 404 (Msg ''Investment not found''), st)
          else
           (case users st (ref_id (tuser transaction)) of
              None \<Rightarrow> (Failure 404 (Msg ''User not found''), st)
            | Some user \<Rightarrow>
                let uid = ref_id (tuser transaction);
                    x0 = (user, transaction\<lparr>status := new_status\<rparr>, st);
                    x1 = (if new_status = ''rejected'' then on_rejected uid x0 else x0);
                    x2 = (if new_status = ''approved'' then on_approved x1 else x1);
                    x3 = (if new_status = ''completed'' then on_completed uid x2 else x2)
                in (case x3 of (user3, transaction3, st3) \<Rightarrow>
                      (Success 200
                         \<lparr> put_message = ''Investment '' @ new_status @ '' successfully'',
                           put_transaction = transaction3 \<rparr>,
                       st3\<lparr>transactions := (transactions st3)[tid := transaction3]\<rparr>))))"

subsection \<open>GET /plans/investment/:id/progress and GET /plans/investments/active\<close>

record progress_view =
  investmentId :: nat
  view_status :: string
  totalAmount :: real
  totalInterest :: real
  view_currentInterest :: real
  progress :: jsnum
  timeRemaining :: string
  view_startDate :: msec
  view_endDate :: msec
  isCompleted :: bool

text \<open>\<open>Math.min((currentInterest / totalInterest) * 100, 100)\<close>\<close>

definition progress_percent :: "real \<Rightarrow> real \<Rightarrow> jsnum" where
  "progress_percent currentInterest' totalInterest' =
     js_min (js_times (js_div currentInterest' totalInterest') 100) 100"

definition get_investment_progress :: "msec \<Rightarrow> nat \<Rightarrow> state \<Rightarrow> progress_view reply" where
  "get_investment_progress currentDate tid st =
     (case findById (transactions st) tid of
        None \<Rightarrow> Failure 404 (Msg ''Investment not found'')
      | Some transaction \<Rightarrow>
          if ttype transaction \<noteq> ''investment''
          then Failure 404 (Msg ''Investment not found'')
          else
            let startDate' = startDate (planData transaction);
                endDate' = endDate (planData transaction);
                totalInterest' = pd_interest (planData transaction);
                currentInterest' =
                  calculateProgressiveInterest totalInterest' startDate' endDate' currentDate;
                timeRemaining' = formatTimeRemaining endDate' currentDate;
                isCompleted' = isInvestmentDue endDate' currentDate
            in Success 200
                 \<lparr> investmentId = tid,
                   view_status = (if isCompleted' then ''ready_to_complete'' else status transaction),
                   totalAmount = amount transaction,
                   totalInterest = totalInterest',
                   view_currentInterest = currentInterest',
                   progress = progress_percent currentInterest' totalInterest',
                   timeRemaining = timeRemaining',
                   view_startDate = startDate',
                   view_endDate = endDate',
                   isCompleted = isCompleted' \<rparr>)"

record active_view =
  av_investment :: transaction
  av_currentInterest :: real
  isDue :: bool
  av_progress :: jsnum

record active_summary =
  total :: nat
  readyToComplete :: nat

definition with_progress :: "msec \<Rightarrow> transaction \<Rightarrow> active_view" where
  "with_progress currentDate investment' =
     (let startDate' = startDate (planData investment');
          endDate' = endDate (planData investment');
          totalInterest' = pd_interest (planData investment');
          currentInterest' =
            calculateProgressiveInterest totalInterest' startDate' endDate' currentDate;
          isDue' = isInvestmentDue endDate' currentDate
      in \<lparr> av_investment = investment',
           av_currentInterest = currentInterest',
           isDue = isDue',
           av_progress = progress_percent currentInterest' totalInterest' \<rparr>)"

definition get_investments_active :: "msec \<Rightarrow> state \<Rightarrow> active_view list \<times> active_summary" where
  "get_investments_active currentDate st =
     (let activeInvestments =
            filter (\<lambda>t. ttype t = ''investment'' \<and> status t = ''active'') (transactions st);
          investmentsWithProgress = map (with_progress currentDate) activeInvestments
      in (investmentsWithProgress,
          \<lparr> total = length activeInvestments,
            readyToComplete = length (filter isDue investmentsWithProgress) \<rparr>))"

section \<open>utils/investmentAutomation.js\<close>

text \<open>
  \<open>Transaction.find\<close> may throw, which is the sweep's top-level error; the sweep takes
  the query as a parameter \<open>finder\<close>, whose result is the error message or the documents
  found, each with its \<open>_id\<close>. \<open>find_active\<close> is the query of the source on the
  collection: every modelled transaction has an end date, so the condition on
  \<open>planData.endDate\<close> holds for all of them. The lookups, saves and mails inside the
  loop are taken to succeed, so the \<open>catch\<close> around one document is not entered.
\<close>

type_synonym finder = "state \<Rightarrow> string + (nat \<times> transaction) list"

definition find_active :: "state \<Rightarrow> (nat \<times> transaction) list" where
  "find_active st =
     filter (\<lambda>(i, t). ttype t = ''investment'' \<and> status t = ''active'')
       (zip [0 ..< length (transactions st)] (transactions st))"

definition Transaction_find :: "bool \<Rightarrow> finder" where
  "Transaction_find throws st = (if throws then Inl ''find failed'' else Inr (find_active st))"

text \<open>
  The body of the \<open>for\<close> loop for one document found. A missing user is the
  \<open>continue\<close>; the user and the investment are saved, then the mail is sent.
\<close>

definition complete_if_due :: "msec \<Rightarrow> state \<Rightarrow> nat \<times> transaction \<Rightarrow> state" where
  "complete_if_due currentDate st doc =
     (case doc of (tid, investment') \<Rightarrow>
        if isInvestmentDue (endDate (planData investment')) currentDate
        then
         (case users st (ref_id (tuser investment')) of
            None \<Rightarrow> st
          | Some user \<Rightarrow>
              let user1 = user\<lparr>deposit := deposit user + amount investment'\<rparr>;
                  user2 = user1\<lparr>interest := interest user1 + pd_interest (planData investment')\<rparr>;
                  investment1 = investment'\<lparr>status := ''completed''\<rparr>;
                  investment2 = investment1\<lparr>planData :=
                    (planData investment1)\<lparr>currentInterest := pd_interest (planData investment1)\<rparr>\<rparr>;
                  st1 = st\<lparr>users := (users st)(ref_id (tuser investment') := Some user2),
                            transactions := (transactions st)[tid := investment2]\<rparr>
              in st1\<lparr>outbox := outbox st1 @
                       [InvestmentCompleted (email user2) (fullName user2) (amount investment2)
                          (date investment2) (pd_plan (planData investment2))]\<rparr>)
        else st)"

definition processCompletedInvestments :: "finder \<Rightarrow> msec \<Rightarrow> state \<Rightarrow> state" where
  "processCompletedInvestments finder currentDate st =
     (if isProcessing st then st
      else
        let st1 = st\<lparr>isProcessing := True\<rparr>;
            st2 = (case finder st1 of
                     Inl error \<Rightarrow> st1
                   | Inr activeInvestments \<Rightarrow>
                       foldl (complete_if_due currentDate) st1 activeInvestments)
        in st2\<lparr>isProcessing := False\<rparr>)"

definition manualInvestmentCheck :: "finder \<Rightarrow> msec \<Rightarrow> state \<Rightarrow> state" where
  "manualInvestmentCheck = processCompletedInvestments"

section \<open>Sequences of lifecycle operations\<close>

text \<open>
  The operations that change the state, and a run of them from a state. A sweep's query
  either throws or is the query of the source.
\<close>

datatype op =
    PostPlan bool plan_body
  | PostInvest msec invest_body
  | PutInvestment nat string
  | Sweep bool msec

fun apply_op :: "op \<Rightarrow> state \<Rightarrow> state" where
  "apply_op (PostPlan active_default body) st = snd (post_plan active_default body st)"
| "apply_op (PostInvest now body) st = snd (post_invest now body st)"
| "apply_op (PutInvestment tid new_status) st = snd (put_investment tid new_status st)"
| "apply_op (Sweep throws now) st = processCompletedInvestments (Transaction_find throws) now st"

definition run :: "op list \<Rightarrow> state \<Rightarrow> state" where
  "run ops st = foldl (\<lambda>s x. apply_op x s) st ops"

text \<open>
  The state inside a sweep that was entered in \<open>st\<close> and has handled the first \<open>k\<close>
  of the documents found: the sweep is suspended there at every \<open>await\<close>.
\<close>

definition in_sweep :: "msec \<Rightarrow> (nat \<times> transaction) list \<Rightarrow> nat \<Rightarrow> state \<Rightarrow> state" where
  "in_sweep currentDate docs k st =
     foldl (complete_if_due currentDate) (st\<lparr>isProcessing := True\<rparr>) (take k docs)"

section \<open>The current interest over a run\<close>

text \<open>The total and the current interest of the record with id \<open>i\<close>.\<close>

abbreviation total_of :: "state \<Rightarrow> nat \<Rightarrow> real" where
  "total_of st i \<equiv> pd_interest (planData (transactions st ! i))"

abbreviation current_of :: "state \<Rightarrow> nat \<Rightarrow> real" where
  "current_of st i \<equiv> currentInterest (planData (transactions st ! i))"

text \<open>
  \<open>swept st st'\<close>: the records of \<open>st'\<close> are those of \<open>st\<close>, but for
  records that were set to completed with their current interest at the total.
  \<open>snapshot_of st docs\<close>: the documents found carry the total interest that is stored
  under their id. \<open>evolves st st'\<close>: every record of \<open>st\<close> is still in \<open>st'\<close>
  with the same total interest, its current interest unchanged or at the total.
  \<open>zero_or_total st\<close>: the current interest of every record is 0 or its total.
\<close>

definition swept :: "state \<Rightarrow> state \<Rightarrow> bool" where
  "swept st st' \<longleftrightarrow>
     length (transactions st') = length (transactions st) \<and>
     (\<forall>i < length (transactions st).
        transactions st' ! i = transactions st ! i \<or>
        total_of st' i = total_of st i \<and> current_of st' i = total_of st i \<and>
        status (transactions st' ! i) = ''completed'')"

definition snapshot_of :: "state \<Rightarrow> (nat \<times> transaction) list \<Rightarrow> bool" where
  "snapshot_of st docs \<longleftrightarrow>
     (\<forall>(j, t) \<in> set docs. j < length (transactions st) \<longrightarrow>
        pd_interest (planData t) = total_of st j)"

definition evolves :: "state \<Rightarrow> state \<Rightarrow> bool" where
  "evolves st st' \<longleftrightarrow>
     length (transactions st) \<le> length (transactions st') \<and>
     (\<forall>i < length (transactions st).
        total_of st' i = total_of st i \<and>
        (current_of st' i = current_of st i \<or> current_of st' i = total_of st i))"

definition zero_or_total :: "state \<Rightarrow> bool" where
  "zero_or_total st \<longleftrightarrow>
     (\<forall>i < length (transactions st). current_of st i = 0 \<or> current_of st i = total_of st i)"
section \<open>Example documents\<close>

definition demo_plan :: plan where
  "demo_plan = \<lparr> plan_name = ''Starter'', description = ''Ten percent'', roi = 10,
     minAmount = 100, duration = ''30 days'', features = [''Daily payout''], isActive = True \<rparr>"

definition demo_user :: user where
  "demo_user = \<lparr> email = ''ann@example.com'', username = ''ann'', fullName = ''Ann Lee'',
     deposit = 1000, interest = 0 \<rparr>"

definition demo_state :: state where
  "demo_state = \<lparr> plans = [demo_plan], users = Map.empty(7 := Some demo_user),
     transactions = [], outbox = [], isProcessing = False \<rparr>"

text \<open>An investment of 200 with total interest 20, started at 0 and ending at 1000,
  of the user 7 whose deposit is 800 after the debit.\<close>

definition demo_investment :: transaction where
  "demo_investment =
     \<lparr> ttype = ''investment'',
       tuser = \<lparr> ref_id = 7, ref_email = ''ann@example.com'', ref_name = ''ann'' \<rparr>,
       status = ''active'', amount = 200,
       planData = \<lparr> pd_plan = ''Starter'', pd_duration = ''30 days'', pd_interest = 20,
                    startDate = 0, endDate = 1000, currentInterest = 0 \<rparr>,
       date = 0 \<rparr>"

definition invested_state :: state where
  "invested_state = \<lparr> plans = [demo_plan], users = Map.empty(7 := Some (demo_user\<lparr>deposit := 800\<rparr>)),
     transactions = [demo_investment], outbox = [], isProcessing = False \<rparr>"

section \<open>Rounding to a double\<close>


lemma round_even_of_int [simp]: "round_even (real_of_int k) = k"
  by (simp add: round_even_def)

lemma round_even_numeral [simp]: "round_even (numeral n) = numeral n"
  using round_even_of_int [of "numeral n"] by simp





lemma to_double_pos_eq:
  assumes "0 < x" and "2 powr real_of_int e \<le> x" and "x < 2 powr (real_of_int e + 1)"
  shows "to_double x = real_of_int (round_even (x / 2 powr (real_of_int e - 52))) * 2 powr (real_of_int e - 52)"
proof -
  have "\<lfloor>log 2 x\<rfloor> = e"
    using assms by (simp add: floor_log_eq_powr_iff)
  then show ?thesis
    using assms(1) by (simp add: to_double_def Let_def)
qed

lemma exponent_bounds:
  assumes "0 < x"
  shows "2 powr real_of_int \<lfloor>log 2 x\<rfloor> \<le> x" "x < 2 powr (real_of_int \<lfloor>log 2 x\<rfloor> + 1)"
  using assms floor_log_eq_powr_iff [of x 2 "\<lfloor>log 2 x\<rfloor>"] by simp_all


lemma to_double_zero [simp]: "to_double 0 = 0"
  by (simp add: to_double_def)






lemma to_double_scaled:
  fixes k :: nat
  assumes "2 ^ 52 \<le> x * 2 ^ k" and "x * 2 ^ k < 2 ^ 53"
  shows "to_double x = real_of_int (round_even (x * 2 ^ k)) / 2 ^ k"
proof -
  have x: "0 < x"
  proof (rule ccontr)
    assume "\<not> 0 < x"
    then have "x * 2 ^ k \<le> 0" by (simp add: mult_le_0_iff)
    then show False using assms(1) by (smt (verit) zero_less_power)
  qed
  define e :: int where "e = 52 - int k"
  have p: "2 powr (real_of_int e - 52) = 1 / 2 ^ k"
    by (simp add: e_def powr_minus powr_realpow inverse_eq_divide)
  have lo: "2 powr real_of_int e = 2 ^ 52 / 2 ^ k"
    using p by (simp add: powr_diff)
  have hi: "2 powr (real_of_int e + 1) = 2 ^ 53 / 2 ^ k"
    using p by (simp add: powr_diff powr_add)
  have a: "2 powr real_of_int e \<le> x"
    using assms(1) by (simp add: lo pos_divide_le_eq)
  have b: "x < 2 powr (real_of_int e + 1)"
    using assms(2) by (simp add: hi pos_less_divide_eq)
  show ?thesis
    using to_double_pos_eq [OF x a b] by (simp add: p)
qed

lemma to_double_exact:
  fixes k :: nat
  assumes "2 ^ 52 \<le> x * 2 ^ k" and "x * 2 ^ k < 2 ^ 53" and "x * 2 ^ k = real_of_int m"
  shows "to_double x = x"
proof -
  have "to_double x = real_of_int m / 2 ^ k"
    using to_double_scaled [OF assms(1,2)] by (simp add: assms(3))
  also have "\<dots> = x"
    using assms(3) by (simp add: field_simps)
  finally show ?thesis .
qed

lemma two_powr_int:
  fixes e :: int
  assumes "e \<le> 52"
  shows "2 powr real_of_int e = 2 ^ 52 / 2 ^ nat (52 - e)"
proof -
  have "2 powr real_of_int e * 2 ^ nat (52 - e)
      = 2 powr real_of_int e * 2 powr real (nat (52 - e))"
    by (simp only: powr_realpow [of 2, OF zero_less_numeral])
  also have "\<dots> = 2 powr (real_of_int e + real (nat (52 - e)))"
    by (simp only: powr_add)
  also have "real_of_int e + real (nat (52 - e)) = real (52::nat)"
    using assms by simp
  also have "2 powr real (52::nat) = (2::real) ^ 52"
    by (simp only: powr_realpow [of 2, OF zero_less_numeral])
  finally have "2 powr real_of_int e * 2 ^ nat (52 - e) = (2::real) ^ 52" .
  then show ?thesis
    by (simp add: eq_divide_eq)
qed

lemma to_double_of_int:
  assumes "0 \<le> n" and "n < 2 ^ 53"
  shows "to_double (real_of_int n) = real_of_int n"
proof (cases "n = 0")
  case True
  then show ?thesis by simp
next
  case False
  then have n: "0 < real_of_int n" using assms by simp
  define e where "e = \<lfloor>log 2 (real_of_int n)\<rfloor>"
  have eb: "2 powr real_of_int e \<le> real_of_int n" "real_of_int n < 2 powr (real_of_int e + 1)"
    unfolding e_def using exponent_bounds [OF n] by simp_all
  have n53: "real_of_int n < 2 powr 53"
  proof -
    have "real_of_int n < real_of_int (2 ^ 53)"
      using assms(2) by (simp only: of_int_less_iff)
    also have "real_of_int (2 ^ 53) = 2 powr 53"
      by (simp add: powr_numeral)
    finally show ?thesis .
  qed
  have e52: "e \<le> 52"
  proof (rule ccontr)
    assume "\<not> e \<le> 52"
    then have "real_of_int 53 \<le> real_of_int e" by simp
    then have "(2::real) powr real_of_int 53 \<le> 2 powr real_of_int e"
      by (intro powr_mono) simp_all
    then have "(2::real) powr 53 \<le> real_of_int n"
      using eb(1) by simp
    then show False using n53 by simp
  qed
  define k where "k = nat (52 - e)"
  have pw: "2 powr real_of_int e = 2 ^ 52 / 2 ^ k"
    unfolding k_def using e52 by (rule two_powr_int)
  have pw1: "2 powr (real_of_int e + 1) = 2 ^ 53 / 2 ^ k"
  proof -
    have "2 powr (real_of_int e + 1) = 2 powr real_of_int e * 2"
      by (simp add: powr_add)
    then show ?thesis by (simp add: pw)
  qed
  have a: "2 ^ 52 \<le> real_of_int n * 2 ^ k"
    using eb(1) unfolding pw by (simp add: pos_divide_le_eq)
  have b: "real_of_int n * 2 ^ k < 2 ^ 53"
    using eb(2) unfolding pw1 by (simp add: pos_less_divide_eq)
  have c: "real_of_int n * 2 ^ k = real_of_int (n * 2 ^ k)" by simp
  show ?thesis using a b c by (rule to_double_exact)
qed

lemma to_double_numeral:
  "(numeral n :: int) < 2 ^ 53 \<Longrightarrow> to_double (numeral n) = numeral n"
  using to_double_of_int [of "numeral n"] by simp







lemma to_double_at:
  fixes k :: nat
  assumes "2 ^ 52 \<le> x * 2 ^ k" and "x * 2 ^ k < 2 ^ 53" and "round_even (x * 2 ^ k) = m"
  shows "to_double x = real_of_int m / 2 ^ k"
  using to_double_scaled [OF assms(1,2)] assms(3) by simp











section \<open>Progressive interest\<close>




lemma to_double_one: "to_double 1 = 1"
  using to_double_of_int [of 1] by simp






















section \<open>The progress percentage\<close>

lemma cpi_zero_total: "calculateProgressiveInterest 0 s e n = 0"
  by (simp add: calculateProgressiveInterest_def Let_def Math_round_def)

lemma progress_percent_zero: "progress_percent 0 0 = NaN"
  by (simp add: progress_percent_def js_div_def js_times_def js_min_def)

text \<open>
  Claim C10. For an investment whose plan-snapshot total interest is 0, the progress
  percentage of both projections (the progress of one investment and the listing of the
  active ones) is \<open>NaN\<close> at every instant: the current interest is 0 as well, and the
  quotient \<open>0 / 0\<close> is computed without a guard.
\<close>

theorem progress_NaN_when_total_interest_zero:
  assumes "pd_interest (planData t) = 0"
  shows "av_progress (with_progress now t) = NaN
    \<and> (findById (transactions st) tid = Some t \<and> ttype t = ''investment'' \<longrightarrow>
         (\<exists>v. get_investment_progress now tid st = Success 200 v \<and> progress v = NaN))
    \<and> (t \<in> set (transactions st) \<and> ttype t = ''investment'' \<and> status t = ''active'' \<longrightarrow>
         (\<exists>v \<in> set (fst (get_investments_active now st)).
            av_investment v = t \<and> av_progress v = NaN))"
proof (intro conjI impI)
  show a: "av_progress (with_progress now t) = NaN"
    using assms by (simp add: with_progress_def Let_def cpi_zero_total progress_percent_zero)
  show "\<exists>v. get_investment_progress now tid st = Success 200 v \<and> progress v = NaN"
    if "findById (transactions st) tid = Some t \<and> ttype t = ''investment''"
    using that assms
    by (simp add: get_investment_progress_def Let_def cpi_zero_total progress_percent_zero)
  show "\<exists>v \<in> set (fst (get_investments_active now st)). av_investment v = t \<and> av_progress v = NaN"
    if h: "t \<in> set (transactions st) \<and> ttype t = ''investment'' \<and> status t = ''active''"
  proof
    show "with_progress now t \<in> set (fst (get_investments_active now st))"
      using h by (simp add: get_investments_active_def Let_def)
    show "av_investment (with_progress now t) = t \<and> av_progress (with_progress now t) = NaN"
      using a by (simp add: with_progress_def Let_def)
  qed
qed

text \<open>The theorem of C10 at the example investment with its total interest set to 0.\<close>

theorem progress_NaN_when_total_interest_zero_witness:
  "pd_interest (planData (demo_investment\<lparr>planData := (planData demo_investment)\<lparr>pd_interest := 0\<rparr>\<rparr>)) = 0
   \<and> av_progress (with_progress 500
        (demo_investment\<lparr>planData := (planData demo_investment)\<lparr>pd_interest := 0\<rparr>\<rparr>)) = NaN"
  using progress_NaN_when_total_interest_zero
    [of "demo_investment\<lparr>planData := (planData demo_investment)\<lparr>pd_interest := 0\<rparr>\<rparr>" 500]
  by simp

section \<open>Creating a plan\<close>

text \<open>A request whose rate and minimum are positive, and whose name is made of ASCII
  letters, digits and spaces, is accepted with 201.\<close>

lemma post_plan_accepts:
  assumes "name \<noteq> []" "plain_name name" "descr \<noteq> []" "dur \<noteq> []" "fs \<noteq> []"
    and "0 < r" "r \<le> 1000" "0 < m" "\<not> name_exists (plans st) name"
  shows "\<exists>p. fst (post_plan a
      \<lparr> b_name = Some name, b_description = Some descr, b_roi = Some r, b_minAmount = Some m,
        b_duration = Some dur, b_features = Some (FeatureArray fs) \<rparr> st) = Success 201 p
      \<and> roi p = r \<and> minAmount p = m \<and> plan_name p = name"
  using assms
  by (simp add: post_plan_def truthy_str_def truthy_num_def truthy_features_def Let_def)

text \<open>
  Claim C8 fails on the code: a request with \<open>roi = 0\<close>, and one with
  \<open>minAmount = 0\<close>, every other field being valid, is answered 400 "All fields are
  required", because \<open>!roi\<close> and \<open>!minAmount\<close> hold for the number 0; the range
  checks that follow would let 0 pass.
\<close>

theorem post_plan_rejects_zero:
  "post_plan True
     \<lparr> b_name = Some ''Free'', b_description = Some ''No return'', b_roi = Some 0,
       b_minAmount = Some 100, b_duration = Some ''30 days'',
       b_features = Some (FeatureArray [''Daily payout'']) \<rparr> demo_state
   = (Failure 400 (Msg ''All fields are required''), demo_state)
   \<and> post_plan True
     \<lparr> b_name = Some ''Open'', b_description = Some ''No minimum'', b_roi = Some 10,
       b_minAmount = Some 0, b_duration = Some ''30 days'',
       b_features = Some (FeatureArray [''Daily payout'']) \<rparr> demo_state
   = (Failure 400 (Msg ''All fields are required''), demo_state)"
  by (simp add: post_plan_def truthy_str_def truthy_num_def truthy_features_def)

text \<open>The status code of the first of the two replies.\<close>

theorem post_plan_rejects_zero_witness:
  "status_code (fst (post_plan True
     \<lparr> b_name = Some ''Free'', b_description = Some ''No return'', b_roi = Some 0,
       b_minAmount = Some 100, b_duration = Some ''30 days'',
       b_features = Some (FeatureArray [''Daily payout'']) \<rparr> demo_state)) = 400"
  using post_plan_rejects_zero by simp

section \<open>Completing an investment\<close>

lemma findById_update:
  "findById docs i = Some d \<Longrightarrow> findById (docs[i := d']) i = Some d'"
  by (simp add: findById_def split: if_splits)

text \<open>
  The admin status update to \<open>completed\<close> credits both balances and stores the record
  with the new status; nothing else of the record changes. The scheduler, for a due
  document whose user exists, credits both balances as well and stores the document as
  completed with its current interest at the total.
\<close>

lemma put_investment_completed:
  assumes "findById (transactions st) tid = Some t"
    and "ttype t = ''investment''"
    and "users st (ref_id (tuser t)) = Some u"
  shows "users (snd (put_investment tid ''completed'' st)) (ref_id (tuser t))
      = Some (u\<lparr>deposit := deposit u + amount t,
                 interest := interest u + pd_interest (planData t)\<rparr>)
    \<and> findById (transactions (snd (put_investment tid ''completed'' st))) tid
      = Some (t\<lparr>status := ''completed''\<rparr>)
    \<and> outbox (snd (put_investment tid ''completed'' st)) = outbox st @
        [InvestmentCompleted (email u) (fullName u) (amount t) (date t) (pd_plan (planData t))]"
  using assms
  by (simp add: put_investment_def on_completed_def Let_def findById_update)

lemma complete_if_due_completes:
  assumes "isInvestmentDue (endDate (planData t)) now"
    and "users st (ref_id (tuser t)) = Some u"
    and "tid < length (transactions st)"
  shows "users (complete_if_due now st (tid, t)) (ref_id (tuser t))
      = Some (u\<lparr>deposit := deposit u + amount t,
                 interest := interest u + pd_interest (planData t)\<rparr>)
    \<and> transactions (complete_if_due now st (tid, t)) ! tid
      = t\<lparr>status := ''completed'',
           planData := (planData t)\<lparr>currentInterest := pd_interest (planData t)\<rparr>\<rparr>
    \<and> outbox (complete_if_due now st (tid, t)) = outbox st @
        [InvestmentCompleted (email u) (fullName u) (amount t) (date t) (pd_plan (planData t))]"
  using assms
  by (simp add: complete_if_due_def Let_def)

text \<open>The scheduler, on the example investment at its end date, credits both
  balances, marks the record completed and sets its current interest to 20.\<close>

lemma sweep_example:
  "map_option deposit (users (processCompletedInvestments (Transaction_find False) 1000 invested_state) 7) = Some 1000
   \<and> map_option interest (users (processCompletedInvestments (Transaction_find False) 1000 invested_state) 7) = Some 20
   \<and> status (transactions (processCompletedInvestments (Transaction_find False) 1000 invested_state) ! 0) = ''completed''
   \<and> currentInterest (planData (transactions (processCompletedInvestments (Transaction_find False) 1000 invested_state) ! 0)) = 20"
  by (simp add: processCompletedInvestments_def Transaction_find_def find_active_def
      invested_state_def demo_investment_def demo_user_def complete_if_due_def isInvestmentDue_def Let_def)


text \<open>
  Claim C1 fails on the code for the admin status update: completing the example
  investment (amount 200, total interest 20) through \<open>PUT /plans/investment/:id\<close>
  credits the deposit by 200 and the interest balance by 20 and sets the status, but
  leaves \<open>currentInterest\<close> at 0, where the scheduler sets it to 20.
\<close>

theorem put_investment_completed_keeps_currentInterest:
  "map_option deposit (users (snd (put_investment 0 ''completed'' invested_state)) 7) = Some 1000
   \<and> map_option interest (users (snd (put_investment 0 ''completed'' invested_state)) 7) = Some 20
   \<and> status (transactions (snd (put_investment 0 ''completed'' invested_state)) ! 0) = ''completed''
   \<and> pd_interest (planData (transactions (snd (put_investment 0 ''completed'' invested_state)) ! 0)) = 20
   \<and> currentInterest (planData (transactions (snd (put_investment 0 ''completed'' invested_state)) ! 0)) = 0"
  by (simp add: put_investment_def invested_state_def demo_investment_def demo_user_def
      findById_def on_completed_def Let_def)

text \<open>After the admin update the current interest differs from the total interest.\<close>

theorem put_investment_completed_keeps_currentInterest_witness:
  "currentInterest (planData (transactions (snd (put_investment 0 ''completed'' invested_state)) ! 0))
   \<noteq> pd_interest (planData (transactions (snd (put_investment 0 ''completed'' invested_state)) ! 0))"
  using put_investment_completed_keeps_currentInterest by simp

section \<open>The remaining time as text\<close>

lemma time_units:
  fixes r d h m ms :: int
  assumes "r = d * 86400000 + h * 3600000 + m * 60000 + ms"
    and "0 \<le> h" "h < 24" "0 \<le> m" "m < 60" "0 \<le> ms" "ms < 60000"
  shows "r div 86400000 = d"
    and "(r mod 86400000) div 3600000 = h"
    and "(r mod 3600000) div 60000 = m"
proof -
  have r1: "r = 86400000 * d + (h * 3600000 + m * 60000 + ms)" using assms(1) by simp
  have b1: "0 \<le> h * 3600000 + m * 60000 + ms" "h * 3600000 + m * 60000 + ms < 86400000"
    using assms by linarith+
  show "r div 86400000 = d"
    using r1 b1 by (rule int_div_pos_eq)
  have "r mod 86400000 = h * 3600000 + m * 60000 + ms"
    using r1 b1 by (rule int_mod_pos_eq)
  moreover have "(h * 3600000 + m * 60000 + ms) div 3600000 = h"
  proof (rule int_div_pos_eq)
    show "h * 3600000 + m * 60000 + ms = 3600000 * h + (m * 60000 + ms)" by simp
    show "0 \<le> m * 60000 + ms" "m * 60000 + ms < 3600000" using assms by linarith+
  qed
  ultimately show "(r mod 86400000) div 3600000 = h" by simp
  have "r mod 3600000 = m * 60000 + ms"
  proof (rule int_mod_pos_eq)
    show "r = 3600000 * (d * 24 + h) + (m * 60000 + ms)" using assms(1) by simp
    show "0 \<le> m * 60000 + ms" "m * 60000 + ms < 3600000" using assms by linarith+
  qed
  moreover have "(m * 60000 + ms) div 60000 = m"
  proof (rule int_div_pos_eq)
    show "m * 60000 + ms = 60000 * m + ms" by simp
    show "0 \<le> ms" "ms < 60000" using assms by simp_all
  qed
  ultimately show "(r mod 3600000) div 60000 = m" by simp
qed

lemma show_int_small: "show_int 2 = ''2''" "show_int 3 = ''3''" "show_int 1 = ''1''" "show_int 0 = ''0''"
  by code_simp+

text \<open>A unit whose count is 0 is printed like any other, and a count of 1 has no
  plural.\<close>

lemma formatTimeRemaining_examples:
  "formatTimeRemaining 172800000 0 = ''2 days, 0 hour''"
  "formatTimeRemaining 90000000 0 = ''1 day, 1 hour''"
  "formatTimeRemaining 3660000 0 = ''1 hour, 1 minute''"
  "formatTimeRemaining 30000 0 = ''0 minute''"
  by code_simp+


text \<open>
  Claim C9, as amended. \<open>formatTimeRemaining\<close> returns the sentinel "Investment
  completed" when the remaining time is at most 0. Otherwise, the remaining time being
  \<open>d\<close> days, \<open>h\<close> hours, \<open>m\<close> minutes and less than a minute more, it returns
  days and hours when \<open>d > 0\<close>, else hours and minutes when \<open>h > 0\<close>, else minutes
  alone, where the hours after the days, the minutes after the hours and the minutes
  alone may be 0; each unit is written as its count, the unit's word, and an "s" exactly
  when the count is above 1.
\<close>

theorem formatTimeRemaining_units:
  "(e - now \<le> 0 \<longrightarrow> formatTimeRemaining e now = ''Investment completed'')
   \<and> (0 < e - now \<and> e - now = d * 86400000 + h * 3600000 + m * 60000 + ms
        \<and> 0 \<le> d \<and> 0 \<le> h \<and> h < 24 \<and> 0 \<le> m \<and> m < 60 \<and> 0 \<le> ms \<and> ms < 60000 \<longrightarrow>
      formatTimeRemaining e now =
        (if 0 < d
         then show_int d @ '' day'' @ (if 1 < d then ''s'' else '''') @ '', '' @
              show_int h @ '' hour'' @ (if 1 < h then ''s'' else '''')
         else if 0 < h
         then show_int h @ '' hour'' @ (if 1 < h then ''s'' else '''') @ '', '' @
              show_int m @ '' minute'' @ (if 1 < m then ''s'' else '''')
         else show_int m @ '' minute'' @ (if 1 < m then ''s'' else '''')))"
proof (intro conjI impI)
  show "formatTimeRemaining e now = ''Investment completed''" if "e - now \<le> 0"
    using that by (simp add: formatTimeRemaining_def)
next
  assume a: "0 < e - now \<and> e - now = d * 86400000 + h * 3600000 + m * 60000 + ms
        \<and> 0 \<le> d \<and> 0 \<le> h \<and> h < 24 \<and> 0 \<le> m \<and> m < 60 \<and> 0 \<le> ms \<and> ms < 60000"
  then have r: "e - now = d * 86400000 + h * 3600000 + m * 60000 + ms"
    and b: "0 \<le> h" "h < 24" "0 \<le> m" "m < 60" "0 \<le> ms" "ms < 60000"
    by simp_all
  note u = time_units [OF r b]
  have pos: "\<not> e - now \<le> 0" using a by simp
  have n: "(24 * 60 * 60 * 1000 :: int) = 86400000" "(60 * 60 * 1000 :: int) = 3600000"
    "(60 * 1000 :: int) = 60000"
    by simp_all
  have "formatTimeRemaining e now =
      (if 0 < d then counted d ''day'' @ '', '' @ counted h ''hour''
       else if 0 < h then counted h ''hour'' @ '', '' @ counted m ''minute''
       else counted m ''minute'')"
    unfolding formatTimeRemaining_def Let_def n
    by (simp only: u pos if_False)
  then show "formatTimeRemaining e now =
        (if 0 < d
         then show_int d @ '' day'' @ (if 1 < d then ''s'' else '''') @ '', '' @
              show_int h @ '' hour'' @ (if 1 < h then ''s'' else '''')
         else if 0 < h
         then show_int h @ '' hour'' @ (if 1 < h then ''s'' else '''') @ '', '' @
              show_int m @ '' minute'' @ (if 1 < m then ''s'' else '''')
         else show_int m @ '' minute'' @ (if 1 < m then ''s'' else ''''))"
    by (simp add: counted_def)
qed

text \<open>The theorem of C9 at 2 days 3 hours remaining, and at a past end date.\<close>

theorem formatTimeRemaining_units_witness:
  "formatTimeRemaining 183600000 0 = ''2 days, 3 hours''
   \<and> formatTimeRemaining 0 5 = ''Investment completed''"
  using formatTimeRemaining_units [of 183600000 0 2 3 0 0] formatTimeRemaining_units [of 0 5 0 0 0 0]
  by (simp add: show_int_small)

text \<open>
  Claim C9 as stated fails: the units reported are not always the two coarsest units
  that are not zero. At 2 days and 30 minutes the text has the hours, which are 0, and
  not the minutes; at 1 hour and 30 seconds it has 0 minutes; at 30 seconds it is
  "0 minute".
\<close>

theorem formatTimeRemaining_reports_zero_unit:
  "(174600000::int) = 2 * 86400000 + 0 * 3600000 + 30 * 60000
   \<and> formatTimeRemaining 174600000 0 = ''2 days, 0 hour''
   \<and> (3630000::int) = 1 * 3600000 + 0 * 60000 + 30000
   \<and> formatTimeRemaining 3630000 0 = ''1 hour, 0 minute''
   \<and> formatTimeRemaining 30000 0 = ''0 minute''"
proof -
  have "formatTimeRemaining 174600000 0 = ''2 days, 0 hour''"
    "formatTimeRemaining 3630000 0 = ''1 hour, 0 minute''"
    "formatTimeRemaining 30000 0 = ''0 minute''"
    by code_simp+
  then show ?thesis by simp
qed

section \<open>Rejecting an investment\<close>




section \<open>Creating an investment\<close>

lemma parse_30_days: "parseDurationToMilliseconds ''30 days'' = Inr 2592000000"
  by (simp add: parseDurationToMilliseconds_def trim_def to_lower_def is_space_def is_digit_def
      parseInt_def decimal_value_def unit_words_def Let_def js_product_def js_mul_def
      to_double_numeral)

lemma end_of_30_days:
  assumes "0 \<le> now" and "now < 8000000000000000"
  shows "calculateEndDate now ''30 days'' = Inr (now + 2592000000)"
proof -
  have "to_double (real_of_int (now + 2592000000)) = real_of_int (now + 2592000000)"
    using assms by (intro to_double_of_int) simp_all
  then have "to_double (real_of_int now + 2592000000) = real_of_int (now + 2592000000)"
    by simp
  then show ?thesis
    using assms by (simp add: calculateEndDate_def parse_30_days new_Date_def)
qed

text \<open>
  The duration of a month is not a whole number of milliseconds, and the end date drops
  the fraction: 19 months from the epoch end at 49970303999.
\<close>

lemma double_30_44: "to_double (761 / 25) = 8568098291072369 / 281474976710656"
  using to_double_at [of "761 / 25" 48 8568098291072369]
  by (simp add: round_even_def Let_def)

lemma double_30_44_again: "to_double (8568098291072369 / 281474976710656) = 8568098291072369 / 281474976710656"
  using to_double_at [of "8568098291072369 / 281474976710656" 48 8568098291072369]
  by (simp add: round_even_def Let_def)

lemma months_1_b: "to_double (25704294873217107 / 35184372088832) = 6426073718304277 / 8796093022208"
  using to_double_at [of "25704294873217107 / 35184372088832" 43 6426073718304277]
  by (simp add: round_even_def Let_def)

lemma months_1_c: "to_double (96391105774564155 / 2199023255552) = 1506111027727565 / 34359738368"
  using to_double_at [of "96391105774564155 / 2199023255552" 37 6024444110910260]
  by (simp add: round_even_def Let_def)

lemma months_1_d: "to_double (22591665415913475 / 8589934592) = 5647916353978369 / 2147483648"
  using to_double_at [of "22591665415913475 / 8589934592" 31 5647916353978369]
  by (simp add: round_even_def Let_def)

lemma months_1_e: "to_double (705989544247296125 / 268435456) = 5515543314432001 / 2097152"
  using to_double_at [of "705989544247296125 / 268435456" 21 5515543314432001]
  by (simp add: round_even_def Let_def)

lemma months_1_f: "to_double (5515543314432001 / 2097152) = 5515543314432001 / 2097152"
  using to_double_at [of "5515543314432001 / 2097152" 21 5515543314432001]
  by (simp add: round_even_def Let_def)

lemma months_19_a: "to_double (162793867530375011 / 281474976710656) = 5087308360324219 / 8796093022208"
  using to_double_at [of "162793867530375011 / 281474976710656" 43 5087308360324219]
  by (simp add: round_even_def Let_def)

lemma months_19_b: "to_double (15261925080972657 / 1099511627776) = 953870317560791 / 68719476736"
  using to_double_at [of "15261925080972657 / 1099511627776" 39 7630962540486328]
  by (simp add: round_even_def Let_def)

lemma months_19_c: "to_double (14308054763411865 / 17179869184) = 1788506845426483 / 2147483648"
  using to_double_at [of "14308054763411865 / 17179869184" 33 7154027381705932]
  by (simp add: round_even_def Let_def)

lemma months_19_d: "to_double (26827602681397245 / 536870912) = 6706900670349311 / 134217728"
  using to_double_at [of "26827602681397245 / 536870912" 27 6706900670349311]
  by (simp add: round_even_def Let_def)

lemma months_19_e: "to_double (838362583793663875 / 16777216) = 6549707685887999 / 131072"
  using to_double_at [of "838362583793663875 / 16777216" 17 6549707685887999]
  by (simp add: round_even_def Let_def)

lemma months_19_f: "to_double (6549707685887999 / 131072) = 6549707685887999 / 131072"
  using to_double_at [of "6549707685887999 / 131072" 17 6549707685887999]
  by (simp add: round_even_def Let_def)

lemma parse_1_month: "parseDurationToMilliseconds ''1 month'' = Inr (5515543314432001 / 2097152)"
  by (simp add: parseDurationToMilliseconds_def trim_def to_lower_def is_space_def is_digit_def
      parseInt_def decimal_value_def unit_words_def Let_def js_product_def js_mul_def
      to_double_one to_double_numeral double_30_44 double_30_44_again months_1_b months_1_c months_1_d months_1_e months_1_f)

lemma end_of_19_months: "calculateEndDate 0 ''19 months'' = Inr 49970303999"
  by (simp add: calculateEndDate_def new_Date_def
      parseDurationToMilliseconds_def trim_def to_lower_def is_space_def is_digit_def
      parseInt_def decimal_value_def unit_words_def Let_def js_product_def js_mul_def
      to_double_numeral double_30_44 double_30_44_again months_19_a months_19_b months_19_c months_19_d months_19_e months_19_f)

lemma end_of_forever: "calculateEndDate now ''forever'' = Inl (InvalidDurationFormat ''forever'')"
  by (simp add: calculateEndDate_def parseDurationToMilliseconds_def trim_def to_lower_def
      is_space_def is_digit_def unit_words_def Let_def)




text \<open>
  Claim C4, as amended. For a creation request on an existing, active plan, where the
  amount is below the plan's minimum, or where the user exists and the deposit is below
  the amount, the answer is 400 and the state (every balance included) is unchanged.
  More generally every creation request answered 400 or 404 leaves the state unchanged.
\<close>

theorem post_invest_validation_leaves_state:
  "(findById (plans st) (planId body) = Some p \<and> isActive p
      \<and> (req_amount body < minAmount p
          \<or> users st (userId body) = Some u \<and> deposit u < req_amount body) \<longrightarrow>
      status_code (fst (post_invest now body st)) = 400 \<and> snd (post_invest now body st) = st)
   \<and> (status_code (fst (post_invest now body st)) = 400
        \<or> status_code (fst (post_invest now body st)) = 404 \<longrightarrow>
      snd (post_invest now body st) = st)"
proof (intro conjI impI)
  assume "findById (plans st) (planId body) = Some p \<and> isActive p
      \<and> (req_amount body < minAmount p
          \<or> users st (userId body) = Some u \<and> deposit u < req_amount body)"
  then show "status_code (fst (post_invest now body st)) = 400"
    and "snd (post_invest now body st) = st"
    by (auto simp add: post_invest_def)
next
  assume "status_code (fst (post_invest now body st)) = 400
        \<or> status_code (fst (post_invest now body st)) = 404"
  then show "snd (post_invest now body st) = st"
    by (auto simp add: post_invest_def Let_def split: option.splits if_splits sum.splits)
qed

text \<open>The theorem of C4 at an amount of 50 under the minimum 100, and at an amount of
  5000 over the deposit 1000.\<close>

theorem post_invest_validation_leaves_state_witness:
  "findById (plans demo_state) 0 = Some demo_plan \<and> isActive demo_plan
   \<and> (50::real) < minAmount demo_plan
   \<and> status_code (fst (post_invest 0
        \<lparr> planId = 0, req_amount = 50, userId = 7, req_interest = None \<rparr> demo_state)) = 400
   \<and> snd (post_invest 0
        \<lparr> planId = 0, req_amount = 50, userId = 7, req_interest = None \<rparr> demo_state) = demo_state
   \<and> users demo_state 7 = Some demo_user \<and> deposit demo_user < 5000
   \<and> status_code (fst (post_invest 0
        \<lparr> planId = 0, req_amount = 5000, userId = 7, req_interest = None \<rparr> demo_state)) = 400
   \<and> snd (post_invest 0
        \<lparr> planId = 0, req_amount = 5000, userId = 7, req_interest = None \<rparr> demo_state) = demo_state"
proof -
  have a: "findById (plans demo_state) 0 = Some demo_plan"
    by (simp add: findById_def demo_state_def)
  have b: "isActive demo_plan" "(50::real) < minAmount demo_plan"
    by (simp_all add: demo_plan_def)
  have c: "users demo_state 7 = Some demo_user" by (simp add: demo_state_def)
  have d: "deposit demo_user < 5000" by (simp add: demo_user_def)
  show ?thesis
    using
      post_invest_validation_leaves_state
        [of demo_state "\<lparr> planId = 0, req_amount = 50, userId = 7, req_interest = None \<rparr>"
          demo_plan demo_user 0]
      post_invest_validation_leaves_state
        [of demo_state "\<lparr> planId = 0, req_amount = 5000, userId = 7, req_interest = None \<rparr>"
          demo_plan demo_user 0]
      a b c d
    by simp
qed

text \<open>
  Claim C4 as stated fails in two places. On an inactive plan an amount below the minimum
  is answered 404, not 400. And a failure path has a debit: for a plan whose duration does
  not parse the user is saved with the deposit 800 before \<open>calculateEndDate\<close> throws,
  and the answer is 500.
\<close>

theorem post_invest_404_before_400_and_debit_before_500:
  "req_amount \<lparr> planId = 0, req_amount = 50, userId = 7, req_interest = None \<rparr>
      < minAmount (demo_plan\<lparr>isActive := False\<rparr>)
   \<and> fst (post_invest 0 \<lparr> planId = 0, req_amount = 50, userId = 7, req_interest = None \<rparr>
         (demo_state\<lparr>plans := [demo_plan\<lparr>isActive := False\<rparr>]\<rparr>))
       = Failure 404 (Msg ''Plan not found'')
   \<and> fst (post_invest 0 \<lparr> planId = 0, req_amount = 200, userId = 7, req_interest = None \<rparr>
         (demo_state\<lparr>plans := [demo_plan\<lparr>duration := ''forever''\<rparr>]\<rparr>))
       = Failure 500 (Msg ''Invalid duration format: forever'')
   \<and> map_option deposit (users (demo_state\<lparr>plans := [demo_plan\<lparr>duration := ''forever''\<rparr>]\<rparr>) 7)
       = Some 1000
   \<and> map_option deposit (users (snd (post_invest 0
         \<lparr> planId = 0, req_amount = 200, userId = 7, req_interest = None \<rparr>
         (demo_state\<lparr>plans := [demo_plan\<lparr>duration := ''forever''\<rparr>]\<rparr>))) 7) = Some 800"
  by (simp add: post_invest_def demo_state_def demo_plan_def demo_user_def findById_def
      end_of_forever Let_def)

section \<open>The scheduler's guard\<close>

lemma complete_if_due_isProcessing:
  "isProcessing (complete_if_due now st doc) = isProcessing st"
  by (cases doc) (simp add: complete_if_due_def Let_def split: option.splits)

lemma foldl_complete_isProcessing:
  "isProcessing (foldl (complete_if_due now) st docs) = isProcessing st"
  by (induction docs arbitrary: st) (simp_all add: complete_if_due_isProcessing)

lemma in_sweep_isProcessing: "isProcessing (in_sweep now docs k st)"
  by (simp add: in_sweep_def foldl_complete_isProcessing)

text \<open>
  Claim C6. A sweep invoked while the flag is set returns the state as it is, whatever
  the query would give: it reads nothing and changes nothing. Inside a sweep, after any
  number of the documents found, the flag is set, so a sweep invoked there is such a
  no-op. A sweep entered with the flag clear ends with the flag clear, both when the
  query throws (the state is then the one it started in) and when the loop has run, so
  the next sweep is not skipped.
\<close>

theorem sweep_single_flight:
  "(isProcessing st \<longrightarrow> processCompletedInvestments finder now st = st)
   \<and> isProcessing (in_sweep now docs k st)
   \<and> processCompletedInvestments finder' now' (in_sweep now docs k st) = in_sweep now docs k st
   \<and> (\<not> isProcessing st \<longrightarrow> \<not> isProcessing (processCompletedInvestments finder now st))
   \<and> (\<not> isProcessing st \<and> finder (st\<lparr>isProcessing := True\<rparr>) = Inl err \<longrightarrow>
        processCompletedInvestments finder now st = st)
   \<and> (\<not> isProcessing st \<and> finder (st\<lparr>isProcessing := True\<rparr>) = Inr found \<longrightarrow>
        processCompletedInvestments finder now st
          = (in_sweep now found (length found) st)\<lparr>isProcessing := False\<rparr>)"
proof (intro conjI impI)
  show "processCompletedInvestments finder now st = st" if "isProcessing st"
    using that by (simp add: processCompletedInvestments_def)
  show "isProcessing (in_sweep now docs k st)"
    by (rule in_sweep_isProcessing)
  show "processCompletedInvestments finder' now' (in_sweep now docs k st) = in_sweep now docs k st"
    by (simp add: processCompletedInvestments_def in_sweep_isProcessing)
  show "\<not> isProcessing (processCompletedInvestments finder now st)" if "\<not> isProcessing st"
    using that by (simp add: processCompletedInvestments_def Let_def)
  show "processCompletedInvestments finder now st = st"
    if "\<not> isProcessing st \<and> finder (st\<lparr>isProcessing := True\<rparr>) = Inl err"
    using that by (simp add: processCompletedInvestments_def Let_def)
  show "processCompletedInvestments finder now st
          = (in_sweep now found (length found) st)\<lparr>isProcessing := False\<rparr>"
    if "\<not> isProcessing st \<and> finder (st\<lparr>isProcessing := True\<rparr>) = Inr found"
    using that by (simp add: processCompletedInvestments_def Let_def in_sweep_def)
qed

text \<open>The theorem of C6 at the example state: with the flag set, with the flag clear,
  and with a query that throws.\<close>

theorem sweep_single_flight_witness:
  "\<not> isProcessing invested_state
   \<and> isProcessing (invested_state\<lparr>isProcessing := True\<rparr>)
   \<and> Transaction_find True (invested_state\<lparr>isProcessing := True\<rparr>) = Inl ''find failed''
   \<and> processCompletedInvestments (Transaction_find False) 1000
        (invested_state\<lparr>isProcessing := True\<rparr>) = invested_state\<lparr>isProcessing := True\<rparr>
   \<and> \<not> isProcessing (processCompletedInvestments (Transaction_find False) 1000 invested_state)
   \<and> processCompletedInvestments (Transaction_find True) 1000 invested_state = invested_state"
proof -
  have a: "\<not> isProcessing invested_state" by (simp add: invested_state_def)
  have b: "Transaction_find True (invested_state\<lparr>isProcessing := True\<rparr>) = Inl ''find failed''"
    by (simp add: Transaction_find_def)
  show ?thesis
    using a b
      sweep_single_flight [of "invested_state\<lparr>isProcessing := True\<rparr>" "Transaction_find False" 1000]
      sweep_single_flight [of invested_state "Transaction_find False" 1000]
      sweep_single_flight [of invested_state "Transaction_find True" 1000 _ _ _ _ "''find failed''"]
    by simp
qed


section \<open>The current interest of a record\<close>

lemma complete_if_due_swept:
  assumes "j < length (transactions st) \<longrightarrow> pd_interest (planData t) = total_of st j"
  shows "swept st (complete_if_due now st (j, t))"
proof (cases "isInvestmentDue (endDate (planData t)) now \<and> users st (ref_id (tuser t)) \<noteq> None")
  case False
  then show ?thesis
    by (auto simp add: swept_def complete_if_due_def)
next
  case True
  then obtain u where u: "users st (ref_id (tuser t)) = Some u" by auto
  have len: "length (transactions (complete_if_due now st (j, t))) = length (transactions st)"
    using True u by (simp add: complete_if_due_def Let_def)
  have nth: "transactions (complete_if_due now st (j, t)) ! i =
      (if i = j then t\<lparr>status := ''completed'',
                      planData := (planData t)\<lparr>currentInterest := pd_interest (planData t)\<rparr>\<rparr>
       else transactions st ! i)"
    if "i < length (transactions st)" for i
    using True u that by (simp add: complete_if_due_def Let_def nth_list_update)
  show ?thesis
    unfolding swept_def
  proof (intro conjI allI impI)
    show "length (transactions (complete_if_due now st (j, t))) = length (transactions st)"
      by (rule len)
  next
    fix i assume i: "i < length (transactions st)"
    show "transactions (complete_if_due now st (j, t)) ! i = transactions st ! i \<or>
        total_of (complete_if_due now st (j, t)) i = total_of st i \<and>
        current_of (complete_if_due now st (j, t)) i = total_of st i \<and>
        status (transactions (complete_if_due now st (j, t)) ! i) = ''completed''"
      using assms i by (simp add: nth [OF i])
  qed
qed

lemma swept_refl: "swept st st"
  by (simp add: swept_def)

lemma swept_trans_step:
  assumes "swept st0 s" and "swept s s'"
  shows "swept st0 s'"
  using assms unfolding swept_def
  by (metis (no_types, lifting))

lemma swept_total: "swept st s \<Longrightarrow> i < length (transactions st) \<Longrightarrow> total_of s i = total_of st i"
  unfolding swept_def by metis

lemma foldl_complete_swept:
  assumes "swept st0 s" and "snapshot_of st0 docs"
  shows "swept st0 (foldl (complete_if_due now) s docs)"
  using assms
proof (induction docs arbitrary: s)
  case Nil
  then show ?case by simp
next
  case (Cons doc docs)
  obtain j t where doc: "doc = (j, t)" by (cases doc)
  have len: "length (transactions s) = length (transactions st0)"
    using Cons.prems(1) by (simp add: swept_def)
  have "j < length (transactions s) \<longrightarrow> pd_interest (planData t) = total_of s j"
    using Cons.prems len swept_total [OF Cons.prems(1), of j]
    by (auto simp add: snapshot_of_def doc)
  then have "swept s (complete_if_due now s (j, t))"
    by (rule complete_if_due_swept)
  then have "swept st0 (complete_if_due now s doc)"
    using Cons.prems(1) doc swept_trans_step by blast
  moreover have "snapshot_of st0 docs"
    using Cons.prems(2) by (simp add: snapshot_of_def)
  ultimately show ?case
    using Cons.IH by simp
qed

lemma snapshot_find_active: "snapshot_of st (find_active st)"
  by (auto simp add: snapshot_of_def find_active_def set_zip)

lemma sweep_swept:
  "swept st (processCompletedInvestments (Transaction_find throws) now st)"
proof -
  let ?st1 = "st\<lparr>isProcessing := True\<rparr>"
  have a: "swept st ?st1" by (simp add: swept_def)
  have "snapshot_of ?st1 (find_active ?st1)" by (rule snapshot_find_active)
  then have "snapshot_of st (find_active ?st1)" by (simp add: snapshot_of_def)
  then have "swept st (foldl (complete_if_due now) ?st1 (find_active ?st1))"
    using a by (intro foldl_complete_swept)
  then have "swept st ((foldl (complete_if_due now) ?st1 (find_active ?st1))\<lparr>isProcessing := False\<rparr>)"
    by (simp add: swept_def)
  moreover have "swept st (?st1\<lparr>isProcessing := False\<rparr>)" by (simp add: swept_def)
  ultimately show ?thesis
    by (simp add: processCompletedInvestments_def Transaction_find_def Let_def swept_refl)
qed

lemma put_investment_planData:
  "length (transactions (snd (put_investment tid new_status st))) = length (transactions st)
   \<and> (\<forall>i < length (transactions st).
        planData (transactions (snd (put_investment tid new_status st)) ! i)
          = planData (transactions st ! i))"
proof (cases "findById (transactions st) tid")
  case None
  then show ?thesis by (simp add: put_investment_def)
next
  case (Some t)
  then have t: "tid < length (transactions st)" "transactions st ! tid = t"
    by (simp_all add: findById_def split: if_splits)
  show ?thesis
  proof (cases "users st (ref_id (tuser t))")
    case None
    then show ?thesis using Some by (simp add: put_investment_def)
  next
    case (Some u)
    show ?thesis
      using \<open>findById (transactions st) tid = Some t\<close> Some t
      by (simp add: put_investment_def on_rejected_def on_approved_def on_completed_def
          Let_def nth_list_update)
  qed
qed

lemma post_invest_transactions:
  "transactions (snd (post_invest now body st)) = transactions st
   \<or> (\<exists>t. transactions (snd (post_invest now body st)) = transactions st @ [t]
          \<and> currentInterest (planData t) = 0)"
  by (simp add: post_invest_def Let_def split: option.splits sum.splits)

lemma post_plan_transactions:
  "transactions (snd (post_plan a body st)) = transactions st"
  by (simp add: post_plan_def Let_def split: features_value.splits)

text \<open>One operation.\<close>

lemma apply_op_step:
  "length (transactions st) \<le> length (transactions (apply_op x st))
   \<and> (\<forall>i < length (transactions st).
        total_of (apply_op x st) i = total_of st i
        \<and> (current_of (apply_op x st) i = current_of st i
            \<or> current_of (apply_op x st) i = total_of st i
              \<and> status (transactions (apply_op x st) ! i) = ''completed''))
   \<and> (\<forall>i. length (transactions st) \<le> i \<and> i < length (transactions (apply_op x st)) \<longrightarrow>
        current_of (apply_op x st) i = 0)"
proof (cases x)
  case (PostPlan a body)
  then show ?thesis by (simp add: post_plan_transactions)
next
  case (PostInvest now body)
  then show ?thesis
    using post_invest_transactions [of now body st]
    by (auto simp add: nth_append)
next
  case (PutInvestment tid new_status)
  then show ?thesis
    using put_investment_planData [of tid new_status st] by simp
next
  case (Sweep throws now)
  have "swept st (apply_op x st)"
    using Sweep sweep_swept by simp
  then show ?thesis
    using Sweep unfolding swept_def by (auto simp add: Sweep)
qed

lemma apply_op_evolves: "evolves st (apply_op x st)"
  using apply_op_step [of st x] unfolding evolves_def by blast

lemma evolves_refl: "evolves st st"
  by (simp add: evolves_def)

lemma evolves_trans:
  assumes "evolves a b" and "evolves b c"
  shows "evolves a c"
  unfolding evolves_def
proof (intro conjI allI impI)
  show "length (transactions a) \<le> length (transactions c)"
    using assms by (simp add: evolves_def)
next
  fix i assume i: "i < length (transactions a)"
  then have ib: "i < length (transactions b)" using assms(1) by (simp add: evolves_def)
  have ab: "total_of b i = total_of a i"
    "current_of b i = current_of a i \<or> current_of b i = total_of a i"
    using assms(1) i by (simp_all add: evolves_def)
  have bc: "total_of c i = total_of b i"
    "current_of c i = current_of b i \<or> current_of c i = total_of b i"
    using assms(2) ib by (simp_all add: evolves_def)
  show "total_of c i = total_of a i"
    using ab bc by simp
  show "current_of c i = current_of a i \<or> current_of c i = total_of a i"
    using ab bc by auto
qed

lemma run_evolves: "evolves st (run ops st)"
proof (induction ops arbitrary: st)
  case Nil
  then show ?case by (simp add: run_def evolves_refl)
next
  case (Cons x ops)
  have "evolves st (apply_op x st)" by (rule apply_op_evolves)
  moreover have "evolves (apply_op x st) (run ops (apply_op x st))" by (rule Cons.IH)
  ultimately show ?case
    using evolves_trans by (simp add: run_def)
qed

lemma apply_op_zero_or_total:
  assumes "zero_or_total st"
  shows "zero_or_total (apply_op x st)"
  unfolding zero_or_total_def
proof (intro allI impI)
  fix i assume i: "i < length (transactions (apply_op x st))"
  show "current_of (apply_op x st) i = 0 \<or> current_of (apply_op x st) i = total_of (apply_op x st) i"
  proof (cases "i < length (transactions st)")
    case True
    then have "current_of st i = 0 \<or> current_of st i = total_of st i"
      using assms by (simp add: zero_or_total_def)
    then show ?thesis
      using apply_op_step [of st x] True by metis
  next
    case False
    then show ?thesis
      using apply_op_step [of st x] i by simp
  qed
qed

lemma run_zero_or_total: "zero_or_total st \<Longrightarrow> zero_or_total (run ops st)"
  by (induction ops arbitrary: st) (simp_all add: run_def apply_op_zero_or_total)

lemma run_demo_invest:
  "transactions (run [PostInvest 0 \<lparr> planId = 0, req_amount = 200, userId = 7, req_interest = v \<rparr>]
      demo_state)
   = [demo_investment\<lparr>planData := (planData demo_investment)
        \<lparr>pd_interest := (if truthy_num v then the v else 20), endDate := 2592000000\<rparr>\<rparr>]"
  by (simp add: run_def post_invest_def demo_state_def demo_plan_def demo_user_def findById_def
      end_of_30_days Let_def demo_investment_def)

lemma run_demo_invest_users:
  "users (run [PostInvest 0 \<lparr> planId = 0, req_amount = 200, userId = 7, req_interest = v \<rparr>]
      demo_state) 7 = Some (demo_user\<lparr>deposit := 800\<rparr>)"
  by (simp add: run_def post_invest_def demo_state_def demo_plan_def demo_user_def findById_def
      end_of_30_days Let_def)

lemma run_demo_invest_flag:
  "\<not> isProcessing (run [PostInvest 0 \<lparr> planId = 0, req_amount = 200, userId = 7, req_interest = v \<rparr>]
      demo_state)"
  by (simp add: run_def post_invest_def demo_state_def demo_plan_def demo_user_def findById_def
      end_of_30_days Let_def)

lemma run_demo_sweep:
  "current_of (run [Sweep False 2592000000]
      (run [PostInvest 0 \<lparr> planId = 0, req_amount = 200, userId = 7, req_interest = v \<rparr>]
        demo_state)) 0 = (if truthy_num v then the v else 20)"
proof -
  let ?s = "run [PostInvest 0 \<lparr> planId = 0, req_amount = 200, userId = 7, req_interest = v \<rparr>] demo_state"
  have "current_of (processCompletedInvestments (Transaction_find False) 2592000000 ?s) 0
      = (if truthy_num v then the v else 20)"
    using run_demo_invest_flag [of v]
    by (simp add: processCompletedInvestments_def Transaction_find_def find_active_def Let_def
        run_demo_invest run_demo_invest_users complete_if_due_def isInvestmentDue_def
        demo_investment_def)
  then show ?thesis by (simp add: run_def)
qed

text \<open>
  Claim C7, as amended. Start with no records and run any operations (plan and
  investment creation, status updates, sweeps whose query may throw). A record that then
  exists and whose total interest is not negative has a current interest that is 0 or the
  total, so at most the total; after any further operations the record still exists with
  the same total interest, and its current interest has not decreased and is at most the
  total. When one operation changes the current interest of a record, it sets it to the
  total, and the record is then completed; a record that an operation creates has
  current interest 0.
\<close>

theorem currentInterest_bounded_monotone:
  assumes "transactions st0 = []"
    and "i < length (transactions (run ops st0))"
    and "0 \<le> total_of (run ops st0) i"
  shows "i < length (transactions (run ops' (run ops st0)))
    \<and> total_of (run ops' (run ops st0)) i = total_of (run ops st0) i
    \<and> (current_of (run ops st0) i = 0 \<or> current_of (run ops st0) i = total_of (run ops st0) i)
    \<and> current_of (run ops st0) i \<le> total_of (run ops st0) i
    \<and> current_of (run ops st0) i \<le> current_of (run ops' (run ops st0)) i
    \<and> current_of (run ops' (run ops st0)) i \<le> total_of (run ops st0) i
    \<and> (current_of (apply_op x (run ops st0)) i \<noteq> current_of (run ops st0) i \<longrightarrow>
         current_of (apply_op x (run ops st0)) i = total_of (run ops st0) i
         \<and> status (transactions (apply_op x (run ops st0)) ! i) = ''completed'')
    \<and> (\<forall>k. length (transactions (run ops st0)) \<le> k
             \<and> k < length (transactions (apply_op x (run ops st0))) \<longrightarrow>
           current_of (apply_op x (run ops st0)) k = 0)"
proof -
  define st where "st = run ops st0"
  have "zero_or_total st0" using assms(1) by (simp add: zero_or_total_def)
  then have "zero_or_total st" unfolding st_def by (rule run_zero_or_total)
  then have z: "current_of st i = 0 \<or> current_of st i = total_of st i"
    using assms(2) by (simp add: zero_or_total_def st_def)
  have ev: "evolves st (run ops' st)" by (rule run_evolves)
  have i: "i < length (transactions st)" using assms(2) by (simp add: st_def)
  have T: "0 \<le> total_of st i" using assms(3) by (simp add: st_def)
  have e1: "i < length (transactions (run ops' st))"
    using ev i by (simp add: evolves_def)
  have e2: "total_of (run ops' st) i = total_of st i"
    using ev i by (simp add: evolves_def)
  have e3: "current_of (run ops' st) i = current_of st i \<or> current_of (run ops' st) i = total_of st i"
    using ev i by (simp add: evolves_def)
  have b: "current_of st i \<le> total_of st i" using z T by auto
  have m: "current_of st i \<le> current_of (run ops' st) i" using z e3 T by auto
  have m2: "current_of (run ops' st) i \<le> total_of st i" using z e3 T by auto
  have only: "current_of (apply_op x st) i \<noteq> current_of st i \<longrightarrow>
         current_of (apply_op x st) i = total_of st i
         \<and> status (transactions (apply_op x st) ! i) = ''completed''"
    using apply_op_step [of st x] i by blast
  have new: "\<forall>k. length (transactions st) \<le> k \<and> k < length (transactions (apply_op x st)) \<longrightarrow>
           current_of (apply_op x st) k = 0"
    using apply_op_step [of st x] by blast
  show ?thesis
    using e1 e2 z b m m2 only new unfolding st_def by blast
qed

text \<open>The theorem of C7 on the example: an investment of 200 at 10 percent, then a sweep
  at its end date.\<close>

theorem currentInterest_bounded_monotone_witness:
  "transactions demo_state = []
   \<and> 0 < length (transactions
        (run [PostInvest 0 \<lparr> planId = 0, req_amount = 200, userId = 7, req_interest = None \<rparr>]
          demo_state))
   \<and> total_of (run [PostInvest 0 \<lparr> planId = 0, req_amount = 200, userId = 7, req_interest = None \<rparr>]
        demo_state) 0 = 20
   \<and> current_of (run [PostInvest 0 \<lparr> planId = 0, req_amount = 200, userId = 7, req_interest = None \<rparr>]
        demo_state) 0 = 0
   \<and> current_of (run [Sweep False 2592000000]
        (run [PostInvest 0 \<lparr> planId = 0, req_amount = 200, userId = 7, req_interest = None \<rparr>]
          demo_state)) 0 = 20
   \<and> current_of (run [PostInvest 0 \<lparr> planId = 0, req_amount = 200, userId = 7, req_interest = None \<rparr>]
        demo_state) 0
     \<le> current_of (run [Sweep False 2592000000]
        (run [PostInvest 0 \<lparr> planId = 0, req_amount = 200, userId = 7, req_interest = None \<rparr>]
          demo_state)) 0"
proof -
  have a: "transactions demo_state = []" by (simp add: demo_state_def)
  have n: "truthy_num None = False" by (simp add: truthy_num_def)
  show ?thesis
    using a
      currentInterest_bounded_monotone
        [of demo_state 0
          "[PostInvest 0 \<lparr> planId = 0, req_amount = 200, userId = 7, req_interest = None \<rparr>]"
          "[Sweep False 2592000000]"]
    by (simp add: run_demo_invest run_demo_sweep n demo_investment_def)
qed

text \<open>
  Claim C7 as stated fails for a record whose total interest is negative: a creation
  request with the override \<open>-5\<close> records total interest \<open>-5\<close> and current
  interest 0, which is above the total, and the sweep at the end date then lowers the
  current interest to \<open>-5\<close>.
\<close>

theorem currentInterest_above_negative_total:
  "transactions demo_state = []
   \<and> total_of (run [PostInvest 0 \<lparr> planId = 0, req_amount = 200, userId = 7, req_interest = Some (- 5) \<rparr>]
        demo_state) 0 = - 5
   \<and> current_of (run [PostInvest 0 \<lparr> planId = 0, req_amount = 200, userId = 7, req_interest = Some (- 5) \<rparr>]
        demo_state) 0 = 0
   \<and> \<not> current_of (run [PostInvest 0 \<lparr> planId = 0, req_amount = 200, userId = 7, req_interest = Some (- 5) \<rparr>]
        demo_state) 0
       \<le> total_of (run [PostInvest 0 \<lparr> planId = 0, req_amount = 200, userId = 7, req_interest = Some (- 5) \<rparr>]
        demo_state) 0
   \<and> current_of (run [Sweep False 2592000000]
        (run [PostInvest 0 \<lparr> planId = 0, req_amount = 200, userId = 7, req_interest = Some (- 5) \<rparr>]
          demo_state)) 0 = - 5
   \<and> \<not> current_of (run [PostInvest 0 \<lparr> planId = 0, req_amount = 200, userId = 7, req_interest = Some (- 5) \<rparr>]
        demo_state) 0
       \<le> current_of (run [Sweep False 2592000000]
        (run [PostInvest 0 \<lparr> planId = 0, req_amount = 200, userId = 7, req_interest = Some (- 5) \<rparr>]
          demo_state)) 0"
proof -
  have a: "transactions demo_state = []" by (simp add: demo_state_def)
  have n: "truthy_num (Some (- 5))" by (simp add: truthy_num_def)
  show ?thesis
    using a by (simp add: run_demo_invest run_demo_sweep n demo_investment_def)
qed

end
